theory Spec2Isabelle
  imports Complex_Main
begin

section \<open>Shared data\<close>

text \<open>
  Identifiers, names and e-mail addresses are strings. A timestamp is a number of
  milliseconds since the epoch (the value of a JavaScript \<open>Date\<close>), so comparing two
  dates is comparing two integers. A JavaScript exception is a value of type \<open>error\<close>;
  a function that can throw returns \<open>error + 'a\<close> with \<open>Inl\<close> for the exception, and
  \<open>null\<close>/\<open>undefined\<close> is \<open>None\<close>. The logger is a list of entries the function returns.
  Collections and tables are lists of documents in insertion order; the storage backend
  itself is assumed to answer (a backend failure is modelled only where a function's
  handling of it is the subject, through a lookup that returns \<open>error + 'a\<close>).
\<close>

type_synonym timestamp = int

datatype error = Error string | TypeError string

fun message :: "error \<Rightarrow> string" where
  "message (Error m) = m"
| "message (TypeError m) = m"

datatype log_level = LOG_ERROR | LOG_WARN | LOG_INFO | LOG_DEBUG

type_synonym log_entry = "log_level \<times> string"

record User =
  u_id :: "string option"
  email :: string
  password :: "string option"
  role :: string

record Session =
  session_id :: string
  s_user_id :: string
  s_expires :: timestamp

record Role =
  role_id :: string
  role_name :: string
  role_permissions :: "string list"

text \<open>The collection primitives: first match, delete the first match, update the first match.\<close>

fun deleteOne :: "('a \<Rightarrow> bool) \<Rightarrow> 'a list \<Rightarrow> 'a list" where
  "deleteOne P [] = []"
| "deleteOne P (x # xs) = (if P x then xs else x # deleteOne P xs)"

fun updateOne :: "('a \<Rightarrow> bool) \<Rightarrow> ('a \<Rightarrow> 'a) \<Rightarrow> 'a list \<Rightarrow> 'a list" where
  "updateOne P f [] = []"
| "updateOne P f (x # xs) = (if P x then f x # xs else x # updateOne P f xs)"

definition deleteMany :: "('a \<Rightarrow> bool) \<Rightarrow> 'a list \<Rightarrow> 'a list" where
  "deleteMany P xs = filter (\<lambda>x. \<not> P x) xs"

section \<open>config/permissions.ts\<close>

datatype PermissionType = COLLECTION | USER | CONFIGURATION | SYSTEM

datatype PermissionAction = CREATE | READ | UPDATE | DELETE | MANAGE | SHARE | ACCESS

record Permission =
  perm_id :: string
  perm_name :: string
  perm_action :: PermissionAction
  perm_contextType :: PermissionType

text \<open>
  \<open>getAllPermissions\<close> logs a debug line and returns the full permission objects. The
  module keeps only the identifiers and its body returns the empty array as a stand-in for
  the objects "stored somewhere else"; the array it returns is therefore the parameter
  \<open>allPermissions\<close> of the functions below, and \<open>getAllPermissions\<close> is the value the
  file as it stands supplies.
\<close>

definition getAllPermissions :: "Permission list" where
  "getAllPermissions = []"

section \<open>auth/permissionCheck.ts\<close>

record PermissionConfig =
  cfg_id :: string
  cfg_name :: string
  contextId :: string
  action :: PermissionAction
  contextType :: PermissionType
  requiredRole :: "string option"
  description :: "string option"

record PermissionResult =
  hasPermission :: bool
  isRateLimited :: bool

text \<open>
  \<open>authAdapter\<close> is imported from the database module and may be undefined; of the adapter
  only \<open>getRoleByName\<close> is called here. \<open>rolePermissionCache\<close> is the module-level
  \<open>Map\<close> from role name to permission array; it is passed in and returned.
\<close>

type_synonym authAdapter = "string \<Rightarrow> error + Role option"

type_synonym rolePermissionCache = "string \<rightharpoonup> Permission list"

definition getCachedRolePermissions ::
  "authAdapter option \<Rightarrow> Permission list \<Rightarrow> rolePermissionCache \<Rightarrow> string
    \<Rightarrow> (error + Permission list) \<times> rolePermissionCache \<times> log_entry list" where
  "getCachedRolePermissions adapter allPermissions cache r =
     (case cache r of
        Some ps \<Rightarrow> (Inr ps, cache, [])
      | None \<Rightarrow>
          (case adapter of
             None \<Rightarrow>
               (Inl (Error ''Authentication adapter is not initialized.''), cache,
                [(LOG_ERROR, ''Authentication adapter is not initialized.'')])
           | Some getRoleByName \<Rightarrow>
               (case getRoleByName r of
                  Inl e \<Rightarrow>
                    (Inl e, cache,
                     [(LOG_DEBUG, ''getAllPermissions called, returning all registered permissions.''),
                      (LOG_ERROR, ''Error fetching role permissions: '' @ message e)])
                | Inr None \<Rightarrow>
                    (Inr [], cache,
                     [(LOG_DEBUG, ''getAllPermissions called, returning all registered permissions.''),
                      (LOG_WARN, ''Role '' @ r @ '' not found'')])
                | Inr (Some userRole) \<Rightarrow>
                    (let rolePermissions =
                           filter (\<lambda>permission. perm_id permission \<in> set (role_permissions userRole))
                             allPermissions
                     in (Inr rolePermissions, cache(r \<mapsto> rolePermissions),
                         [(LOG_DEBUG, ''getAllPermissions called, returning all registered permissions.'')])))))"

definition checkForSelfLockout :: "User \<Rightarrow> PermissionConfig \<Rightarrow> Permission list \<Rightarrow> bool" where
  "checkForSelfLockout user config userPermissions =
     (if requiredRole config \<noteq> Some ''admin'' \<and> Some (role user) = requiredRole config
      then list_all
             (\<lambda>permission. perm_id permission \<noteq> contextId config
                \<or> perm_action permission \<noteq> action config
                \<or> perm_contextType permission \<noteq> contextType config)
             userPermissions
      else False)"

text \<open>The predicate of the \<open>some\<close> call that decides the grant.\<close>

definition permissionMatches :: "PermissionConfig \<Rightarrow> Permission \<Rightarrow> bool" where
  "permissionMatches config permission =
     (perm_id permission = contextId config
      \<and> perm_action permission = action config
      \<and> (perm_contextType permission = contextType config \<or> perm_contextType permission = SYSTEM))"

definition denied :: PermissionResult where
  "denied = \<lparr>hasPermission = False, isRateLimited = False\<rparr>"

text \<open>
  The whole body of \<open>checkUserPermission\<close> is inside one \<open>try\<close>, whose \<open>catch\<close> logs and
  returns a denial. The result type still has room for an exception, so that whether one
  escapes is a statement about the function.
\<close>

definition checkUserPermission ::
  "authAdapter option \<Rightarrow> Permission list \<Rightarrow> rolePermissionCache \<Rightarrow> User \<Rightarrow> PermissionConfig
    \<Rightarrow> (error + PermissionResult) \<times> rolePermissionCache \<times> log_entry list" where
  "checkUserPermission adapter allPermissions cache user config =
     (if role user = ''admin''
      then (Inr \<lparr>hasPermission = True, isRateLimited = False\<rparr>, cache, [])
      else if adapter = None
      then (Inr denied, cache, [(LOG_ERROR, ''Authentication adapter is not initialized.'')])
      else
        (case getCachedRolePermissions adapter allPermissions cache (role user) of
           (Inl e, cache', lg) \<Rightarrow>
             (Inr denied, cache',
              lg @ [(LOG_ERROR, ''Error checking user permission: '' @ message e)])
         | (Inr userPermissions, cache', lg) \<Rightarrow>
             (if checkForSelfLockout user config userPermissions
              then (Inr denied, cache',
                    lg @ [(LOG_ERROR, ''User '' @ email user @ '' attempted a self-lockout by role change'')])
              else
                (let granted = list_ex (permissionMatches config) userPermissions
                 in (Inr \<lparr>hasPermission = granted, isRateLimited = False\<rparr>, cache',
                     lg @ (if granted then []
                           else [(LOG_WARN, ''User '' @ email user @ '' lacks required permission for ''
                                   @ contextId config)]))))))"

section \<open>auth/mongoDBAuth: the MongoDB auth adapter\<close>

record MongoToken =
  t_user_id :: string
  t_token :: string
  t_email :: string
  t_expires :: timestamp

record mongo_db =
  UserModel :: "User list"
  SessionModel :: "Session list"
  TokenModel :: "MongoToken list"
  RoleModel :: "Role list"
  PermissionModel :: "Permission list"

subsection \<open>Sessions\<close>

definition MongoDBAuthAdapter_validateSession ::
  "mongo_db \<Rightarrow> timestamp \<Rightarrow> string \<Rightarrow> User option \<times> mongo_db" where
  "MongoDBAuthAdapter_validateSession db now sid =
     (case find (\<lambda>s. session_id s = sid) (SessionModel db) of
        None \<Rightarrow> (None, db)
      | Some session \<Rightarrow>
          (if s_expires session \<le> now
           then (None, db\<lparr>SessionModel := deleteOne (\<lambda>s. session_id s = sid) (SessionModel db)\<rparr>)
           else (find (\<lambda>u. u_id u = Some (s_user_id session)) (UserModel db), db)))"

definition MongoDBAuthAdapter_getActiveSessions ::
  "mongo_db \<Rightarrow> timestamp \<Rightarrow> string \<Rightarrow> Session list" where
  "MongoDBAuthAdapter_getActiveSessions db now uid =
     filter (\<lambda>s. s_user_id s = uid \<and> s_expires s > now) (SessionModel db)"

subsection \<open>Tokens\<close>

text \<open>
  \<open>createToken\<close> takes the random token string it draws as a parameter. \<open>validateToken\<close>
  and \<open>consumeToken\<close> read the clock twice, once for the message and once for the status:
  \<open>now1\<close> and \<open>now2\<close> are the two readings.
\<close>

definition MongoDBAuthAdapter_createToken ::
  "mongo_db \<Rightarrow> timestamp \<Rightarrow> string \<Rightarrow> string \<Rightarrow> string \<Rightarrow> int \<Rightarrow> string \<times> mongo_db" where
  "MongoDBAuthAdapter_createToken db now tokenString uid mail ttl =
     (tokenString,
      db\<lparr>TokenModel := TokenModel db @
            [\<lparr>t_user_id = uid, t_token = tokenString, t_email = mail, t_expires = now + ttl\<rparr>]\<rparr>)"

definition MongoDBAuthAdapter_validateToken ::
  "mongo_db \<Rightarrow> timestamp \<Rightarrow> timestamp \<Rightarrow> string \<Rightarrow> string \<Rightarrow> bool \<times> string" where
  "MongoDBAuthAdapter_validateToken db now1 now2 tok uid =
     (case find (\<lambda>t. t_token t = tok \<and> t_user_id t = uid) (TokenModel db) of
        Some tokenDoc \<Rightarrow>
          (t_expires tokenDoc > now2,
           if t_expires tokenDoc > now1 then ''Token is valid'' else ''Token is expired'')
      | None \<Rightarrow> (False, ''Token does not exist''))"

definition MongoDBAuthAdapter_consumeToken ::
  "mongo_db \<Rightarrow> timestamp \<Rightarrow> timestamp \<Rightarrow> string \<Rightarrow> string \<Rightarrow> (bool \<times> string) \<times> mongo_db" where
  "MongoDBAuthAdapter_consumeToken db now1 now2 tok uid =
     (case find (\<lambda>t. t_token t = tok \<and> t_user_id t = uid) (TokenModel db) of
        Some tokenDoc \<Rightarrow>
          ((t_expires tokenDoc > now2,
            if t_expires tokenDoc > now1 then ''Token is valid'' else ''Token is expired''),
           db\<lparr>TokenModel := deleteOne (\<lambda>t. t_token t = tok \<and> t_user_id t = uid) (TokenModel db)\<rparr>)
      | None \<Rightarrow> ((False, ''Token does not exist''), db))"

subsection \<open>Roles and permissions\<close>

text \<open>
  \<open>checkUserPermission\<close> of the adapter reads the user document with its roles and their
  permissions populated. The user, role and permission schemas are not part of the
  sources, so the populated lookup \<open>UserModel.findById(user_id).populate(...)\<close> is the
  parameter \<open>findByIdPopulated\<close>; an optional array is an \<open>option\<close>. A role
  document carries the identifiers of its permissions, as \<open>config/roles.ts\<close> declares
  them and as \<open>getCachedRolePermissions\<close> reads them.
\<close>

record PopulatedPermission =
  pp_action :: "string option"

record PopulatedRole =
  pr_name :: string
  pr_permissions :: "PopulatedPermission list option"

record PopulatedUser =
  pu_roles :: "PopulatedRole list option"
  pu_permissions :: "PopulatedPermission list option"

definition toLowerCaseChar :: "char \<Rightarrow> char" where
  "toLowerCaseChar c =
     (if 65 \<le> (of_char c :: nat) \<and> (of_char c :: nat) \<le> 90
      then char_of ((of_char c :: nat) + 32) else c)"

definition toLowerCase :: "string \<Rightarrow> string" where
  "toLowerCase s = map toLowerCaseChar s"

definition optional_some :: "('a \<Rightarrow> bool) \<Rightarrow> 'a list option \<Rightarrow> bool" where
  "optional_some P xs = (case xs of None \<Rightarrow> False | Some l \<Rightarrow> list_ex P l)"

definition MongoDBAuthAdapter_checkUserPermission ::
  "(string \<Rightarrow> error + PopulatedUser option) \<Rightarrow> string \<Rightarrow> string \<Rightarrow> error + bool" where
  "MongoDBAuthAdapter_checkUserPermission findByIdPopulated uid requiredAction =
     (case findByIdPopulated uid of
        Inl e \<Rightarrow> Inl e
      | Inr None \<Rightarrow> Inr False
      | Inr (Some user) \<Rightarrow>
          (if optional_some (\<lambda>r. toLowerCase (pr_name r) = ''admin'') (pu_roles user)
           then Inr True
           else if optional_some (\<lambda>p. pp_action p = Some requiredAction) (pu_permissions user)
           then Inr True
           else Inr (optional_some
                       (\<lambda>r. optional_some (\<lambda>p. pp_action p = Some requiredAction) (pr_permissions r))
                       (pu_roles user))))"







section \<open>auth/drizzelDBAuth: the Drizzle auth adapter\<close>

text \<open>
  The \<open>expires\<close> column of the tokens table is an integer in timestamp mode: it holds
  whole seconds, and a row that is read carries the date of that second. \<open>dt_expires\<close>
  is the stored number of seconds and \<open>expires_date\<close> the date the adapter compares.
\<close>

record DrizzleToken =
  dt_id :: string
  dt_userId :: string
  dt_token :: string
  dt_type :: string
  dt_expires :: int

definition expires_date :: "DrizzleToken \<Rightarrow> timestamp" where
  "expires_date t = dt_expires t * 1000"

record drizzle_db =
  users :: "User list"
  sessions :: "Session list"
  tokens :: "DrizzleToken list"

definition DrizzleAuthAdapter_getUserById :: "drizzle_db \<Rightarrow> string \<Rightarrow> User option" where
  "DrizzleAuthAdapter_getUserById db uid = find (\<lambda>u. u_id u = Some uid) (users db)"

definition DrizzleAuthAdapter_validateSession ::
  "drizzle_db \<Rightarrow> timestamp \<Rightarrow> string \<Rightarrow> User option \<times> drizzle_db" where
  "DrizzleAuthAdapter_validateSession db now sid =
     (case find (\<lambda>s. session_id s = sid \<and> s_expires s > now) (sessions db) of
        None \<Rightarrow> (None, db)
      | Some session \<Rightarrow> (DrizzleAuthAdapter_getUserById db (s_user_id session), db))"

definition DrizzleAuthAdapter_getActiveSessions ::
  "drizzle_db \<Rightarrow> timestamp \<Rightarrow> string \<Rightarrow> Session list" where
  "DrizzleAuthAdapter_getActiveSessions db now uid =
     filter (\<lambda>s. s_user_id s = uid \<and> s_expires s > now) (sessions db)"

definition DrizzleAuthAdapter_validateToken ::
  "drizzle_db \<Rightarrow> timestamp \<Rightarrow> string \<Rightarrow> string \<Rightarrow> string \<Rightarrow> bool \<times> string" where
  "DrizzleAuthAdapter_validateToken db now tok uid ty =
     (case find (\<lambda>t. dt_token t = tok \<and> dt_userId t = uid \<and> dt_type t = ty) (tokens db) of
        Some tokenDoc \<Rightarrow>
          (if expires_date tokenDoc > now then (True, ''Token is valid'')
           else (False, ''Token is expired''))
      | None \<Rightarrow> (False, ''Token does not exist''))"

text \<open>\<open>delete ... returning\<close> removes every matching row and returns them; the first is read.\<close>

definition DrizzleAuthAdapter_consumeToken ::
  "drizzle_db \<Rightarrow> timestamp \<Rightarrow> string \<Rightarrow> string \<Rightarrow> string \<Rightarrow> (bool \<times> string) \<times> drizzle_db" where
  "DrizzleAuthAdapter_consumeToken db now tok uid ty =
     (let matching = (\<lambda>t. dt_token t = tok \<and> dt_userId t = uid \<and> dt_type t = ty);
          db' = db\<lparr>tokens := deleteMany matching (tokens db)\<rparr>
      in case filter matching (tokens db) of
           deletedToken # _ \<Rightarrow>
             (if expires_date deletedToken > now then ((True, ''Token is valid''), db')
              else ((False, ''Token is expired''), db'))
         | [] \<Rightarrow> ((False, ''Token does not exist''), db'))"

section \<open>auth/index.ts: the Auth class\<close>

record AuthModels =
  Auth_User :: "User list"
  Auth_Session :: "Session list"

text \<open>
  \<open>new mongoose.Types.ObjectId(session_id)\<close> throws on a string that is no object
  identifier; the conversion is the parameter \<open>toObjectId\<close>. Reading \<open>session.user_id\<close>
  of a \<open>null\<close> session throws a \<open>TypeError\<close>. The user is returned with its \<open>_id\<close> deleted.
\<close>

definition Auth_validateSession ::
  "(string \<Rightarrow> error + string) \<Rightarrow> AuthModels \<Rightarrow> string \<Rightarrow> error + User option" where
  "Auth_validateSession toObjectId m sid =
     (case toObjectId sid of
        Inl e \<Rightarrow> Inl e
      | Inr session_id_object \<Rightarrow>
          (case find (\<lambda>s. session_id s = session_id_object) (Auth_Session m) of
             None \<Rightarrow> Inl (TypeError ''Cannot read properties of null (reading user_id)'')
           | Some session \<Rightarrow>
               (case find (\<lambda>u. u_id u = Some (s_user_id session)) (Auth_User m) of
                  None \<Rightarrow> Inr None
                | Some user \<Rightarrow> Inr (Some (user\<lparr>u_id := None\<rparr>)))))"

text \<open>
  A \<open>Partial<User>\<close> is a record of optional fields, and \<open>$set\<close> writes the fields that are
  present. \<open>argon2.hash\<close> with the fixed attributes is the parameter \<open>hash\<close>; the empty
  string is falsy, so it is stored as it is.
\<close>

record UserAttributes =
  a_email :: "string option"
  a_password :: "string option"
  a_role :: "string option"

definition set_attributes :: "UserAttributes \<Rightarrow> User \<Rightarrow> User" where
  "set_attributes a u =
     u\<lparr>email := (case a_email a of None \<Rightarrow> email u | Some e \<Rightarrow> e),
       password := (case a_password a of None \<Rightarrow> password u | Some p \<Rightarrow> Some p),
       role := (case a_role a of None \<Rightarrow> role u | Some r \<Rightarrow> r)\<rparr>"

definition Auth_updateUserAttributes ::
  "(string \<Rightarrow> string) \<Rightarrow> AuthModels \<Rightarrow> User \<Rightarrow> UserAttributes \<Rightarrow> AuthModels" where
  "Auth_updateUserAttributes hash m user attributes =
     (let attributes' =
            (case a_password attributes of
               Some pw \<Rightarrow> (if pw \<noteq> [] then attributes\<lparr>a_password := Some (hash pw)\<rparr> else attributes)
             | None \<Rightarrow> attributes)
      in m\<lparr>Auth_User := updateOne (\<lambda>u. u_id u = u_id user) (set_attributes attributes') (Auth_User m)\<rparr>)"

section \<open>auth/mongoDBAuth/userAdapter.ts: the user adapter\<close>

definition UserAdapter_changePassword :: "User list \<Rightarrow> string \<Rightarrow> string \<Rightarrow> User list" where
  "UserAdapter_changePassword userModel uid newPassword =
     updateOne (\<lambda>u. u_id u = Some uid) (\<lambda>u. u\<lparr>password := Some newPassword\<rparr>) userModel"

definition UserAdapter_getUserById :: "User list \<Rightarrow> string \<Rightarrow> User option" where
  "UserAdapter_getUserById userModel uid = find (\<lambda>u. u_id u = Some uid) userModel"

section \<open>databases/mongodb/mongoDBAdapter.ts: connect\<close>

text \<open>
  The attempt budget and the delay are JavaScript numbers. \<open>Num q\<close> is the double whose
  value is the rational \<open>q\<close> (a rational that is no double stands for no input), beside
  the two infinities and \<open>NaN\<close>. The loop compares the budget with zero and decrements
  it. \<open>decrement\<close> is the double result of \<open>attempts--\<close> for a positive budget, the only
  place where the loop decrements: up to \<open>2^53 = 9007199254740992\<close> the subtraction is
  exact as long as the result is positive (below one it is negative, rounded or not);
  between \<open>2^53\<close> and \<open>2^54\<close> the doubles are the even integers and the odd difference is
  rounded to the neighbour that is a multiple of four; from \<open>2^54\<close> on the difference is
  rounded back to the budget itself; an infinity stays what it is.
\<close>

datatype number = Num rat | Infinity | NegInfinity | NaN

fun greater_than_zero :: "number \<Rightarrow> bool" where
  "greater_than_zero (Num q) = (0 < q)"
| "greater_than_zero Infinity = True"
| "greater_than_zero NegInfinity = False"
| "greater_than_zero NaN = False"

fun at_most_zero :: "number \<Rightarrow> bool" where
  "at_most_zero (Num q) = (q \<le> 0)"
| "at_most_zero Infinity = False"
| "at_most_zero NegInfinity = True"
| "at_most_zero NaN = False"

fun decrement :: "number \<Rightarrow> number" where
  "decrement (Num q) =
     Num (if q \<le> 9007199254740992 then q - 1
          else if q < 18014398509481984 \<and> of_int \<lfloor>q\<rfloor> = q \<and> \<lfloor>q\<rfloor> mod 4 = 2 then q - 2
          else q)"
| "decrement Infinity = Infinity"
| "decrement NegInfinity = NegInfinity"
| "decrement NaN = NaN"

text \<open>\<open>v || d\<close> on an optional configured number: zero and \<open>NaN\<close> are falsy.\<close>

fun falsy :: "number \<Rightarrow> bool" where
  "falsy (Num q) = (q = 0)"
| "falsy NaN = True"
| "falsy Infinity = False"
| "falsy NegInfinity = False"

definition number_or :: "number option \<Rightarrow> number \<Rightarrow> number" where
  "number_or v d = (case v of None \<Rightarrow> d | Some x \<Rightarrow> if falsy x then d else x)"

text \<open>
  The \<open>k\<close>-th call of \<open>mongoose.connect\<close> either succeeds (\<open>None\<close>) or throws
  (\<open>Some e\<close>): \<open>outcome\<close> is what the backend does, call by call. The loop need not
  end, so it runs on fuel, one unit for each test of the loop condition: \<open>None\<close> is a
  run that has not returned within the fuel. A run that returns gives how \<open>connect\<close> ends
  together with what it did, in order: each attempt and each wait.
\<close>

datatype connect_event = TryConnect | Wait number

fun connect_loop ::
  "nat \<Rightarrow> (nat \<Rightarrow> error option) \<Rightarrow> number option \<Rightarrow> number \<Rightarrow> nat
    \<Rightarrow> ((error + unit) \<times> connect_event list) option" where
  "connect_loop 0 outcome DB_RETRY_DELAY attempts k = None"
| "connect_loop (Suc fuel) outcome DB_RETRY_DELAY attempts k =
     (if greater_than_zero attempts
      then (case outcome k of
              None \<Rightarrow> Some (Inr (), [TryConnect])
            | Some err \<Rightarrow>
                (if at_most_zero (decrement attempts)
                 then Some (Inl (Error (''MongoDB adapter failed to connect after maximum retries. Error: ''
                                        @ message err)),
                            [TryConnect])
                 else (case connect_loop fuel outcome DB_RETRY_DELAY (decrement attempts) (Suc k) of
                         None \<Rightarrow> None
                       | Some (r, evs) \<Rightarrow>
                           Some (r, TryConnect # Wait (number_or DB_RETRY_DELAY (Num 3000)) # evs))))
      else Some (Inr (), []))"

definition connect ::
  "nat \<Rightarrow> (nat \<Rightarrow> error option) \<Rightarrow> number option \<Rightarrow> number option \<Rightarrow> number option
    \<Rightarrow> ((error + unit) \<times> connect_event list) option" where
  "connect fuel outcome DB_RETRY_ATTEMPTS DB_RETRY_DELAY attempts =
     connect_loop fuel outcome DB_RETRY_DELAY
       (case attempts of None \<Rightarrow> number_or DB_RETRY_ATTEMPTS (Num 3) | Some n \<Rightarrow> n) 0"

section \<open>The permission check\<close>

lemma checkForSelfLockout_iff:
  "checkForSelfLockout user config ps \<longleftrightarrow>
     requiredRole config \<noteq> Some ''admin'' \<and> Some (role user) = requiredRole config
     \<and> \<not> list_ex (\<lambda>p. perm_id p = contextId config \<and> perm_action p = action config
                        \<and> perm_contextType p = contextType config) ps"
  by (auto simp: checkForSelfLockout_def list_all_iff list_ex_iff)

lemma checkUserPermission_resolved:
  assumes "role user \<noteq> ''admin''"
    and "getCachedRolePermissions (Some a) allPermissions cache (role user) = (Inr ps, cache', lg)"
  shows "fst (checkUserPermission (Some a) allPermissions cache user config)
           = Inr \<lparr>hasPermission = \<not> checkForSelfLockout user config ps
                                    \<and> list_ex (permissionMatches config) ps,
                  isRateLimited = False\<rparr>"
  using assms by (simp add: checkUserPermission_def denied_def Let_def)

lemma checkUserPermission_never_raises:
  "\<exists>res. fst (checkUserPermission adapter allPermissions cache user config) = Inr res"
  by (auto simp: checkUserPermission_def Let_def split: prod.splits sum.splits)

lemma toLowerCase_Admin: "toLowerCase ''Admin'' = ''admin''"
  by code_simp

text \<open>
  C2. A user whose role is \<open>admin\<close> is granted every query by \<open>checkUserPermission\<close>,
  whatever the adapter (even an undefined one), the permission table and the cache are:
  the cache comes back as it was and nothing is logged. The adapter's own
  \<open>checkUserPermission\<close> answers \<open>true\<close> for every required action as soon as the user
  document it finds has a role whose name is \<open>admin\<close> in any letter case.
\<close>

theorem admin_bypass:
  "(role user = ''admin'' \<longrightarrow>
      checkUserPermission adapter allPermissions cache user config
        = (Inr \<lparr>hasPermission = True, isRateLimited = False\<rparr>, cache, []))
   \<and> (findByIdPopulated uid = Inr (Some puser) \<and> pu_roles puser = Some rs
        \<and> list_ex (\<lambda>r. toLowerCase (pr_name r) = ''admin'') rs \<longrightarrow>
      MongoDBAuthAdapter_checkUserPermission findByIdPopulated uid requiredAction = Inr True)"
  by (simp add: checkUserPermission_def MongoDBAuthAdapter_checkUserPermission_def optional_some_def)

theorem admin_bypass_witness:
  "checkUserPermission None [] Map.empty
      \<lparr>u_id = Some ''u1'', email = ''root@example.org'', password = None, role = ''admin''\<rparr>
      \<lparr>cfg_id = ''c1'', cfg_name = ''Delete posts'', contextId = ''posts'', action = DELETE,
        contextType = COLLECTION, requiredRole = Some ''editor'', description = None\<rparr>
     = (Inr \<lparr>hasPermission = True, isRateLimited = False\<rparr>, Map.empty, [])
   \<and> MongoDBAuthAdapter_checkUserPermission
        (\<lambda>i. Inr (Some \<lparr>pu_roles = Some [\<lparr>pr_name = ''Admin'', pr_permissions = None\<rparr>],
                         pu_permissions = None\<rparr>))
        ''u1'' ''manage_roles'' = Inr True"
  using admin_bypass [of
      "\<lparr>u_id = Some ''u1'', email = ''root@example.org'', password = None, role = ''admin''\<rparr>"
      None "[]" Map.empty
      "\<lparr>cfg_id = ''c1'', cfg_name = ''Delete posts'', contextId = ''posts'', action = DELETE,
        contextType = COLLECTION, requiredRole = Some ''editor'', description = None\<rparr>"
      "\<lambda>i. Inr (Some \<lparr>pu_roles = Some [\<lparr>pr_name = ''Admin'', pr_permissions = None\<rparr>],
                         pu_permissions = None\<rparr>)"
      "''u1''"
      "\<lparr>pu_roles = Some [\<lparr>pr_name = ''Admin'', pr_permissions = None\<rparr>], pu_permissions = None\<rparr>"
      "[\<lparr>pr_name = ''Admin'', pr_permissions = None\<rparr>]"
      "''manage_roles''"]
  by (simp add: toLowerCase_Admin)

text \<open>
  C3. For a user who is not \<open>admin\<close>, whose role is the query's \<open>requiredRole\<close>, and whose
  resolved permissions hold none with the query's identifier, action and context type,
  \<open>checkUserPermission\<close> denies, and the only thing it logs after the resolution is the
  self-lockout error: the grant match is never reached.
\<close>

theorem self_lockout_denied:
  assumes "role user \<noteq> ''admin''"
    and "requiredRole config = Some (role user)"
    and "getCachedRolePermissions (Some a) allPermissions cache (role user)
           = (Inr userPermissions, cache', lg)"
    and "\<not> list_ex (\<lambda>p. perm_id p = contextId config \<and> perm_action p = action config
                        \<and> perm_contextType p = contextType config) userPermissions"
  shows "checkUserPermission (Some a) allPermissions cache user config
           = (Inr \<lparr>hasPermission = False, isRateLimited = False\<rparr>, cache',
              lg @ [(LOG_ERROR, ''User '' @ email user @ '' attempted a self-lockout by role change'')])"
proof -
  have "checkForSelfLockout user config userPermissions"
    using assms(1,2,4) by (simp add: checkForSelfLockout_iff)
  then show ?thesis
    using assms(1,3) by (simp add: checkUserPermission_def denied_def)
qed

theorem self_lockout_denied_witness:
  "checkUserPermission
      (Some (\<lambda>n. Inr (Some \<lparr>role_id = ''r1'', role_name = n, role_permissions = [''posts'']\<rparr>)))
      getAllPermissions Map.empty
      \<lparr>u_id = Some ''u2'', email = ''ed@example.org'', password = None, role = ''editor''\<rparr>
      \<lparr>cfg_id = ''c1'', cfg_name = ''Manage roles'', contextId = ''roles'', action = MANAGE,
        contextType = SYSTEM, requiredRole = Some ''editor'', description = None\<rparr>
     = (Inr \<lparr>hasPermission = False, isRateLimited = False\<rparr>,
        [''editor'' \<mapsto> []],
        [(LOG_DEBUG, ''getAllPermissions called, returning all registered permissions.''),
         (LOG_ERROR, ''User ed@example.org attempted a self-lockout by role change'')])"
proof -
  let ?a = "\<lambda>n. Inr (Some \<lparr>role_id = ''r1'', role_name = n, role_permissions = [''posts'']\<rparr>)"
  let ?u = "\<lparr>u_id = Some ''u2'', email = ''ed@example.org'', password = None, role = ''editor''\<rparr>"
  let ?c = "\<lparr>cfg_id = ''c1'', cfg_name = ''Manage roles'', contextId = ''roles'', action = MANAGE,
        contextType = SYSTEM, requiredRole = Some ''editor'', description = None\<rparr>"
  have h1: "role ?u \<noteq> ''admin''" by simp
  have h2: "requiredRole ?c = Some (role ?u)" by simp
  have h3: "getCachedRolePermissions (Some ?a) getAllPermissions Map.empty (role ?u)
      = (Inr [], [''editor'' \<mapsto> []],
         [(LOG_DEBUG, ''getAllPermissions called, returning all registered permissions.'')])"
    by (simp add: getCachedRolePermissions_def getAllPermissions_def Let_def)
  have h4: "\<not> list_ex (\<lambda>p. perm_id p = contextId ?c \<and> perm_action p = action ?c
                        \<and> perm_contextType p = contextType ?c) []" by simp
  show ?thesis using self_lockout_denied [OF h1 h2 h3 h4] by simp
qed

text \<open>
  The guard looks only at the acting user's own permissions: when they do hold a
  permission with the query's identifier, action and context type, the guard lets the
  query through and the query is granted, also when it is the query for managing that
  very permission.
\<close>

lemma self_lockout_guard_passes_holder:
  assumes "role user \<noteq> ''admin''"
    and "getCachedRolePermissions (Some a) allPermissions cache (role user)
           = (Inr userPermissions, cache', lg)"
    and "list_ex (\<lambda>p. perm_id p = contextId config \<and> perm_action p = action config
                     \<and> perm_contextType p = contextType config) userPermissions"
  shows "checkUserPermission (Some a) allPermissions cache user config
           = (Inr \<lparr>hasPermission = True, isRateLimited = False\<rparr>, cache', lg)"
proof -
  have g: "\<not> checkForSelfLockout user config userPermissions"
    using assms(3) by (simp add: checkForSelfLockout_iff)
  have m: "list_ex (permissionMatches config) userPermissions"
    using assms(3) by (auto simp: list_ex_iff permissionMatches_def)
  show ?thesis
    using assms(1,2) g m by (simp add: checkUserPermission_def)
qed

text \<open>
  C6. For a user who is not \<open>admin\<close> and whose permissions resolve to \<open>userPermissions\<close>:
  unless the self-lockout guard fires, the decision is exactly whether some resolved
  permission has the query's identifier and action and a context type that is the
  query's or \<open>SYSTEM\<close>; when no resolved permission has both the query's identifier and
  its action, the decision is a denial in every case, so the \<open>SYSTEM\<close> wildcard alone
  never grants; and the matching predicate is that triple condition.
\<close>

theorem permission_match_rule:
  assumes "role user \<noteq> ''admin''"
    and "getCachedRolePermissions (Some a) allPermissions cache (role user)
           = (Inr userPermissions, cache', lg)"
  shows "(\<not> checkForSelfLockout user config userPermissions \<longrightarrow>
            fst (checkUserPermission (Some a) allPermissions cache user config)
              = Inr \<lparr>hasPermission =
                       (\<exists>p \<in> set userPermissions.
                          perm_id p = contextId config \<and> perm_action p = action config
                          \<and> (perm_contextType p = contextType config \<or> perm_contextType p = SYSTEM)),
                     isRateLimited = False\<rparr>)
       \<and> ((\<forall>p \<in> set userPermissions.
              perm_id p \<noteq> contextId config \<or> perm_action p \<noteq> action config) \<longrightarrow>
            fst (checkUserPermission (Some a) allPermissions cache user config)
              = Inr \<lparr>hasPermission = False, isRateLimited = False\<rparr>)
       \<and> (\<forall>p. permissionMatches config p \<longleftrightarrow>
              perm_id p = contextId config \<and> perm_action p = action config
              \<and> (perm_contextType p = contextType config \<or> perm_contextType p = SYSTEM))"
proof (intro conjI impI allI)
  assume "\<not> checkForSelfLockout user config userPermissions"
  then show "fst (checkUserPermission (Some a) allPermissions cache user config)
              = Inr \<lparr>hasPermission =
                       (\<exists>p \<in> set userPermissions.
                          perm_id p = contextId config \<and> perm_action p = action config
                          \<and> (perm_contextType p = contextType config \<or> perm_contextType p = SYSTEM)),
                     isRateLimited = False\<rparr>"
    using checkUserPermission_resolved [OF assms, of config]
    by (simp add: list_ex_iff permissionMatches_def)
next
  assume "\<forall>p \<in> set userPermissions.
              perm_id p \<noteq> contextId config \<or> perm_action p \<noteq> action config"
  then have "\<not> list_ex (permissionMatches config) userPermissions"
    by (auto simp: list_ex_iff permissionMatches_def)
  then show "fst (checkUserPermission (Some a) allPermissions cache user config)
              = Inr \<lparr>hasPermission = False, isRateLimited = False\<rparr>"
    using checkUserPermission_resolved [OF assms, of config] by simp
next
  fix p
  show "permissionMatches config p \<longleftrightarrow>
              perm_id p = contextId config \<and> perm_action p = action config
              \<and> (perm_contextType p = contextType config \<or> perm_contextType p = SYSTEM)"
    by (simp add: permissionMatches_def)
qed

theorem permission_match_rule_witness:
  "fst (checkUserPermission
      (Some (\<lambda>n. Inr (Some \<lparr>role_id = ''r2'', role_name = n, role_permissions = [''posts'']\<rparr>)))
      [\<lparr>perm_id = ''posts'', perm_name = ''Read everything'', perm_action = READ,
        perm_contextType = SYSTEM\<rparr>]
      Map.empty
      \<lparr>u_id = Some ''u2'', email = ''ed@example.org'', password = None, role = ''editor''\<rparr>
      \<lparr>cfg_id = ''c1'', cfg_name = ''Read posts'', contextId = ''posts'', action = READ,
        contextType = COLLECTION, requiredRole = None, description = None\<rparr>)
     = Inr \<lparr>hasPermission = True, isRateLimited = False\<rparr>
   \<and> fst (checkUserPermission
      (Some (\<lambda>n. Inr (Some \<lparr>role_id = ''r2'', role_name = n, role_permissions = [''posts'']\<rparr>)))
      [\<lparr>perm_id = ''posts'', perm_name = ''Read everything'', perm_action = READ,
        perm_contextType = SYSTEM\<rparr>]
      Map.empty
      \<lparr>u_id = Some ''u2'', email = ''ed@example.org'', password = None, role = ''editor''\<rparr>
      \<lparr>cfg_id = ''c2'', cfg_name = ''Delete posts'', contextId = ''posts'', action = DELETE,
        contextType = COLLECTION, requiredRole = None, description = None\<rparr>)
     = Inr \<lparr>hasPermission = False, isRateLimited = False\<rparr>"
proof -
  let ?a = "\<lambda>n. Inr (Some \<lparr>role_id = ''r2'', role_name = n, role_permissions = [''posts'']\<rparr>)"
  let ?p = "\<lparr>perm_id = ''posts'', perm_name = ''Read everything'', perm_action = READ,
        perm_contextType = SYSTEM\<rparr>"
  let ?u = "\<lparr>u_id = Some ''u2'', email = ''ed@example.org'', password = None, role = ''editor''\<rparr>"
  let ?c1 = "\<lparr>cfg_id = ''c1'', cfg_name = ''Read posts'', contextId = ''posts'', action = READ,
        contextType = COLLECTION, requiredRole = None, description = None\<rparr>"
  let ?c2 = "\<lparr>cfg_id = ''c2'', cfg_name = ''Delete posts'', contextId = ''posts'', action = DELETE,
        contextType = COLLECTION, requiredRole = None, description = None\<rparr>"
  have h1: "role ?u \<noteq> ''admin''" by simp
  have h2: "getCachedRolePermissions (Some ?a) [?p] Map.empty (role ?u)
      = (Inr [?p], [''editor'' \<mapsto> [?p]],
         [(LOG_DEBUG, ''getAllPermissions called, returning all registered permissions.'')])"
    by (simp add: getCachedRolePermissions_def Let_def)
  have g1: "\<not> checkForSelfLockout ?u ?c1 [?p]" by (simp add: checkForSelfLockout_def)
  have g2: "\<forall>p \<in> set [?p]. perm_id p \<noteq> contextId ?c2 \<or> perm_action p \<noteq> action ?c2" by simp
  from permission_match_rule [OF h1 h2, of ?c1] g1
  have r1: "fst (checkUserPermission (Some ?a) [?p] Map.empty ?u ?c1)
              = Inr \<lparr>hasPermission = True, isRateLimited = False\<rparr>" by simp
  from permission_match_rule [OF h1 h2, of ?c2] g2
  have r2: "fst (checkUserPermission (Some ?a) [?p] Map.empty ?u ?c2)
              = Inr \<lparr>hasPermission = False, isRateLimited = False\<rparr>" by blast
  from r1 r2 show ?thesis by (rule conjI)
qed

text \<open>
  C7, as the code has it. \<open>getCachedRolePermissions\<close> passes the adapter's exception on,
  but \<open>checkUserPermission\<close> never raises: for a user who is not \<open>admin\<close>, a failed
  resolution ends in the denial \<open>{hasPermission: false, isRateLimited: false}\<close>.
\<close>

theorem resolution_failure_is_denied:
  "(\<exists>res. fst (checkUserPermission adapter allPermissions cache user config) = Inr res)
   \<and> (role user \<noteq> ''admin''
        \<and> fst (getCachedRolePermissions adapter allPermissions cache (role user)) = Inl e \<longrightarrow>
      fst (checkUserPermission adapter allPermissions cache user config)
        = Inr \<lparr>hasPermission = False, isRateLimited = False\<rparr>)
   \<and> (cache r = None \<and> a r = Inl e \<longrightarrow>
      fst (getCachedRolePermissions (Some a) allPermissions cache r) = Inl e)"
proof (intro conjI impI)
  show "\<exists>res. fst (checkUserPermission adapter allPermissions cache user config) = Inr res"
    by (rule checkUserPermission_never_raises)
next
  assume "role user \<noteq> ''admin''
        \<and> fst (getCachedRolePermissions adapter allPermissions cache (role user)) = Inl e"
  then show "fst (checkUserPermission adapter allPermissions cache user config)
        = Inr \<lparr>hasPermission = False, isRateLimited = False\<rparr>"
    by (cases "getCachedRolePermissions adapter allPermissions cache (role user)")
       (auto simp: checkUserPermission_def denied_def)
next
  assume "cache r = None \<and> a r = Inl e"
  then show "fst (getCachedRolePermissions (Some a) allPermissions cache r) = Inl e"
    by (simp add: getCachedRolePermissions_def)
qed

theorem resolution_failure_is_denied_witness:
  "fst (getCachedRolePermissions (Some (\<lambda>n. Inl (Error ''timeout''))) [] Map.empty ''author'')
     = Inl (Error ''timeout'')
   \<and> fst (checkUserPermission (Some (\<lambda>n. Inl (Error ''timeout''))) [] Map.empty
       \<lparr>u_id = Some ''u3'', email = ''au@example.org'', password = None, role = ''author''\<rparr>
       \<lparr>cfg_id = ''c1'', cfg_name = ''Read posts'', contextId = ''posts'', action = READ,
         contextType = COLLECTION, requiredRole = None, description = None\<rparr>)
     = Inr \<lparr>hasPermission = False, isRateLimited = False\<rparr>"
proof -
  let ?a = "\<lambda>n::string. (Inl (Error ''timeout'') :: error + Role option)"
  let ?u = "\<lparr>u_id = Some ''u3'', email = ''au@example.org'', password = None, role = ''author''\<rparr>"
  let ?c = "\<lparr>cfg_id = ''c1'', cfg_name = ''Read posts'', contextId = ''posts'', action = READ,
         contextType = COLLECTION, requiredRole = None, description = None\<rparr>"
  note t = resolution_failure_is_denied [of "Some ?a" "[]" Map.empty ?u ?c "Error ''timeout''"
              "''author''" ?a]
  have g: "fst (getCachedRolePermissions (Some ?a) [] Map.empty ''author'') = Inl (Error ''timeout'')"
    using t by simp
  have "fst (checkUserPermission (Some ?a) [] Map.empty ?u ?c)
     = Inr \<lparr>hasPermission = False, isRateLimited = False\<rparr>"
    using t g by simp
  with g show ?thesis by (rule conjI)
qed

text \<open>
  That the failure reaches the caller as a raised error does not hold: where the role
  lookup throws, the resolution raises, and the check logs the error and returns the
  denial.
\<close>

theorem resolution_failure_counterexample:
  "fst (getCachedRolePermissions (Some (\<lambda>n. Inl (Error ''connection lost''))) [] Map.empty ''editor'')
     = Inl (Error ''connection lost'')
   \<and> checkUserPermission (Some (\<lambda>n. Inl (Error ''connection lost''))) [] Map.empty
       \<lparr>u_id = Some ''u2'', email = ''ed@example.org'', password = None, role = ''editor''\<rparr>
       \<lparr>cfg_id = ''c1'', cfg_name = ''Read posts'', contextId = ''posts'', action = READ,
         contextType = COLLECTION, requiredRole = None, description = None\<rparr>
     = (Inr \<lparr>hasPermission = False, isRateLimited = False\<rparr>, Map.empty,
        [(LOG_DEBUG, ''getAllPermissions called, returning all registered permissions.''),
         (LOG_ERROR, ''Error fetching role permissions: connection lost''),
         (LOG_ERROR, ''Error checking user permission: connection lost'')])"
  by (simp add: getCachedRolePermissions_def checkUserPermission_def denied_def)

section \<open>The role permission cache and the registry\<close>





section \<open>Tokens\<close>

lemma find_Some_holds: "find P xs = Some d \<Longrightarrow> P d"
  by (induction xs) (auto split: if_splits)

lemma deleteOne_no_match: "find P xs = None \<Longrightarrow> deleteOne P xs = xs"
  by (induction xs) (auto split: if_splits)

lemma deleteOne_first_match: "find P xs = Some d \<Longrightarrow> deleteOne P xs = remove1 d xs"
  by (induction xs) (auto split: if_splits dest: find_Some_holds)

lemma find_after_deleteOne:
  "length (filter P xs) \<le> 1 \<Longrightarrow> find P (deleteOne P xs) = None"
  by (induction xs) (auto simp: find_None_iff filter_empty_conv split: if_splits)

lemma find_append_fresh: "find P xs = None \<Longrightarrow> P t \<Longrightarrow> find P (xs @ [t]) = Some t"
  by (induction xs) (auto split: if_splits)

lemma deleteOne_append_fresh: "find P xs = None \<Longrightarrow> P t \<Longrightarrow> deleteOne P (xs @ [t]) = xs"
  by (induction xs) (auto split: if_splits)

lemma filter_no_match: "filter P xs = [] \<Longrightarrow> deleteMany P xs = xs"
  by (simp add: deleteMany_def filter_empty_conv)

lemma find_deleteMany: "find P (deleteMany P xs) = None"
  by (simp add: deleteMany_def find_None_iff)

lemma mongo_consume_absent:
  "find (\<lambda>t. t_token t = tok \<and> t_user_id t = uid) (TokenModel db) = None \<Longrightarrow>
     MongoDBAuthAdapter_consumeToken db now1 now2 tok uid = ((False, ''Token does not exist''), db)"
  by (simp add: MongoDBAuthAdapter_consumeToken_def)

lemma mongo_consume_present:
  "find (\<lambda>t. t_token t = tok \<and> t_user_id t = uid) (TokenModel db) = Some d \<Longrightarrow>
     MongoDBAuthAdapter_consumeToken db now1 now2 tok uid
       = ((now2 < t_expires d, if now1 < t_expires d then ''Token is valid'' else ''Token is expired''),
          db\<lparr>TokenModel := remove1 d (TokenModel db)\<rparr>)"
  by (simp add: MongoDBAuthAdapter_consumeToken_def deleteOne_first_match)

lemma mongo_consume_once:
  assumes "length (filter (\<lambda>t. t_token t = tok \<and> t_user_id t = uid) (TokenModel db)) \<le> 1"
  shows "find (\<lambda>t. t_token t = tok \<and> t_user_id t = uid)
           (TokenModel (snd (MongoDBAuthAdapter_consumeToken db now1 now2 tok uid))) = None"
proof (cases "find (\<lambda>t. t_token t = tok \<and> t_user_id t = uid) (TokenModel db)")
  case None
  then show ?thesis by (simp add: mongo_consume_absent)
next
  case (Some d)
  then show ?thesis
    using find_after_deleteOne [OF assms]
    by (simp add: MongoDBAuthAdapter_consumeToken_def)
qed

lemma mongo_consume_ttl0:
  assumes "find (\<lambda>t. t_token t = tok \<and> t_user_id t = uid) (TokenModel db) = None"
    and "now0 \<le> now1" and "now0 \<le> now2"
  shows "MongoDBAuthAdapter_consumeToken
           (snd (MongoDBAuthAdapter_createToken db now0 tok uid mail 0)) now1 now2 tok uid
         = ((False, ''Token is expired''), db)"
  using assms
  by (simp add: MongoDBAuthAdapter_consumeToken_def MongoDBAuthAdapter_createToken_def
        find_append_fresh deleteOne_append_fresh)

lemma drizzle_consume_absent:
  "filter (\<lambda>t. dt_token t = tok \<and> dt_userId t = uid \<and> dt_type t = ty) (tokens db) = [] \<Longrightarrow>
     DrizzleAuthAdapter_consumeToken db now tok uid ty = ((False, ''Token does not exist''), db)"
  by (simp add: DrizzleAuthAdapter_consumeToken_def Let_def filter_no_match)

lemma drizzle_consume_present:
  "filter (\<lambda>t. dt_token t = tok \<and> dt_userId t = uid \<and> dt_type t = ty) (tokens db) = d # ds \<Longrightarrow>
     DrizzleAuthAdapter_consumeToken db now tok uid ty
       = ((now < dt_expires d * 1000,
           if now < dt_expires d * 1000 then ''Token is valid'' else ''Token is expired''),
          db\<lparr>tokens := filter (\<lambda>t. \<not> (dt_token t = tok \<and> dt_userId t = uid \<and> dt_type t = ty))
                          (tokens db)\<rparr>)"
  by (simp add: DrizzleAuthAdapter_consumeToken_def Let_def deleteMany_def expires_date_def)

lemma drizzle_consume_once:
  "filter (\<lambda>t. dt_token t = tok \<and> dt_userId t = uid \<and> dt_type t = ty)
     (tokens (snd (DrizzleAuthAdapter_consumeToken db now tok uid ty))) = []"
  by (auto simp: DrizzleAuthAdapter_consumeToken_def Let_def deleteMany_def filter_empty_conv
           split: list.splits)

text \<open>
  What the lemmas above say of \<open>consumeToken\<close>, for all clock readings. With no matching
  record the answer is \<open>(false, Token does not exist)\<close> and the store is unchanged. With
  a matching record the one that is read is removed from the store whether it had
  expired or not; afterwards no matching record is left (in the document store provided
  at most one matched, since one document is deleted; in the relational store always,
  since every matching row is deleted). The relational adapter reads the clock once and
  answers \<open>(false, Token is expired)\<close> or \<open>(true, Token is valid)\<close>. The document-store
  adapter reads the clock twice: the message follows the first reading and the status
  the second. A token created there with a time to live of zero is reported expired by
  both readings of any later consumption.

  C4. When the token expires between the two readings of the document-store adapter,
  the message and the status disagree: the answer is \<open>(false, Token is valid)\<close>, none of
  the three outcomes (the record is deleted all the same). The relational adapter, on
  the same token at the later instant, answers \<open>(false, Token is expired)\<close>.
\<close>

theorem consumeToken_message_and_status_disagree:
  "MongoDBAuthAdapter_consumeToken
     \<lparr>UserModel = [], SessionModel = [],
      TokenModel = [\<lparr>t_user_id = ''64b7f0c2a1d3e4f5a6b7c8d9'',
                     t_token = ''9f3a1c5e7b2d4f60819a3c5e7b2d4f60'', t_email = ''a@x.com'',
                     t_expires = 1700000000000\<rparr>],
      RoleModel = [], PermissionModel = []\<rparr>
     1699999999999 1700000000000
     ''9f3a1c5e7b2d4f60819a3c5e7b2d4f60'' ''64b7f0c2a1d3e4f5a6b7c8d9''
   = ((False, ''Token is valid''),
      \<lparr>UserModel = [], SessionModel = [], TokenModel = [], RoleModel = [], PermissionModel = []\<rparr>)
   \<and> DrizzleAuthAdapter_consumeToken
       \<lparr>users = [], sessions = [],
        tokens = [\<lparr>dt_id = ''t1'', dt_userId = ''u1'',
                   dt_token = ''9f3a1c5e7b2d4f60819a3c5e7b2d4f60'', dt_type = ''reset'',
                   dt_expires = 1700000000\<rparr>]\<rparr>
       1700000000000 ''9f3a1c5e7b2d4f60819a3c5e7b2d4f60'' ''u1'' ''reset''
   = ((False, ''Token is expired''), \<lparr>users = [], sessions = [], tokens = []\<rparr>)"
  by (simp add: MongoDBAuthAdapter_consumeToken_def DrizzleAuthAdapter_consumeToken_def
        deleteMany_def expires_date_def)

text \<open>The same for every token that expires between the two readings.\<close>

lemma consumeToken_clock_tick:
  "find (\<lambda>t. t_token t = tok \<and> t_user_id t = uid) (TokenModel db) = Some d \<Longrightarrow>
   now1 < t_expires d \<Longrightarrow> t_expires d \<le> now2 \<Longrightarrow>
     MongoDBAuthAdapter_consumeToken db now1 now2 tok uid
       = ((False, ''Token is valid''), db\<lparr>TokenModel := remove1 d (TokenModel db)\<rparr>)"
  by (simp add: mongo_consume_present)

text \<open>
  \<open>validateToken\<close> reads without deleting; on the token created with a time to live of
  zero it reports expired at any later time.
\<close>

lemma validateToken_ttl0:
  assumes "find (\<lambda>t. t_token t = tok \<and> t_user_id t = uid) (TokenModel db) = None"
    and "now0 \<le> now1" and "now0 \<le> now2"
  shows "MongoDBAuthAdapter_validateToken
           (snd (MongoDBAuthAdapter_createToken db now0 tok uid mail 0)) now1 now2 tok uid
         = (False, ''Token is expired'')"
  using assms
  by (simp add: MongoDBAuthAdapter_validateToken_def MongoDBAuthAdapter_createToken_def
        find_append_fresh)

lemma drizzle_validateToken_expired:
  assumes "find (\<lambda>t. dt_token t = tok \<and> dt_userId t = uid \<and> dt_type t = ty) (tokens db) = Some d"
    and "dt_expires d * 1000 \<le> now"
  shows "DrizzleAuthAdapter_validateToken db now tok uid ty = (False, ''Token is expired'')"
  using assms by (simp add: DrizzleAuthAdapter_validateToken_def expires_date_def)

section \<open>Connecting to the database\<close>

lemma count_attempts:
  "count_list (concat (replicate j [TryConnect, Wait w]) @ [TryConnect]) TryConnect = Suc j"
  by (induction j) simp_all

lemma ceiling_unit: "0 < (q::rat) \<Longrightarrow> q \<le> 1 \<Longrightarrow> \<lceil>q\<rceil> = 1"
  by (simp add: ceiling_eq_iff)

lemma connect_loop_shape:
  "0 < q \<Longrightarrow> q \<le> 9007199254740992 \<Longrightarrow> nat \<lceil>q\<rceil> \<le> fuel \<Longrightarrow>
     \<exists>m r. 1 \<le> m \<and> m \<le> nat \<lceil>q\<rceil>
       \<and> connect_loop fuel outcome d (Num q) k
           = Some (r, concat (replicate (m - 1) [TryConnect, Wait (number_or d (Num 3000))])
                        @ [TryConnect])
       \<and> (\<forall>i < m - 1. outcome (k + i) \<noteq> None)
       \<and> (case r of
             Inr u \<Rightarrow> outcome (k + (m - 1)) = None
           | Inl e \<Rightarrow> m = nat \<lceil>q\<rceil> \<and> outcome (k + (m - 1)) \<noteq> None)"
proof (induction fuel arbitrary: q k)
  case 0
  from \<open>0 < q\<close> have "0 < \<lceil>q\<rceil>" by simp
  with 0 show ?case by simp
next
  case (Suc fuel)
  from \<open>0 < q\<close> have "0 < \<lceil>q\<rceil>" by simp
  then have pos: "1 \<le> nat \<lceil>q\<rceil>" by linarith
  show ?case
  proof (cases "outcome k")
    case None
    with Suc.prems pos show ?thesis
      by (intro exI [of _ 1] exI [of _ "Inr ()"]) simp
  next
    case (Some err)
    show ?thesis
    proof (cases "q \<le> 1")
      case True
      with Suc.prems have c: "\<lceil>q\<rceil> = 1" by (simp add: ceiling_unit)
      from True Suc.prems Some c show ?thesis
        by (intro exI [of _ 1]
              exI [of _ "Inl (Error (''MongoDB adapter failed to connect after maximum retries. Error: ''
                                        @ message err))"]) simp
    next
      case False
      then have q1: "0 < q - 1" by simp
      have le: "q - 1 \<le> 9007199254740992" using Suc.prems(2) by simp
      have cl: "\<lceil>q - 1\<rceil> = \<lceil>q\<rceil> - 1" by simp
      have fu: "nat \<lceil>q - 1\<rceil> \<le> fuel" using Suc.prems(3) pos unfolding cl by simp
      from Suc.IH [OF q1 le fu, of "Suc k"]
      obtain m r where m: "1 \<le> m" "m \<le> nat \<lceil>q - 1\<rceil>"
        "connect_loop fuel outcome d (Num (q - 1)) (Suc k)
           = Some (r, concat (replicate (m - 1) [TryConnect, Wait (number_or d (Num 3000))])
                        @ [TryConnect])"
        "\<forall>i < m - 1. outcome (Suc k + i) \<noteq> None"
        "case r of
             Inr u \<Rightarrow> outcome (Suc k + (m - 1)) = None
           | Inl e \<Rightarrow> m = nat \<lceil>q - 1\<rceil> \<and> outcome (Suc k + (m - 1)) \<noteq> None"
        by blast
      have step: "connect_loop (Suc fuel) outcome d (Num q) k
          = Some (r, TryConnect # Wait (number_or d (Num 3000))
                      # concat (replicate (m - 1) [TryConnect, Wait (number_or d (Num 3000))])
                      @ [TryConnect])"
        using Suc.prems False Some m(3) by simp
      have rep: "concat (replicate (Suc m - 1) [TryConnect, Wait (number_or d (Num 3000))]) @ [TryConnect]
          = TryConnect # Wait (number_or d (Num 3000))
            # concat (replicate (m - 1) [TryConnect, Wait (number_or d (Num 3000))]) @ [TryConnect]"
        using m(1) by (cases m) simp_all
      have all: "\<forall>i < Suc m - 1. outcome (k + i) \<noteq> None"
      proof (intro allI impI)
        fix i assume "i < Suc m - 1"
        show "outcome (k + i) \<noteq> None"
        proof (cases i)
          case 0
          with Some show ?thesis by simp
        next
          case (Suc j)
          with \<open>i < Suc m - 1\<close> have "j < m - 1" by simp
          with m(4) have "outcome (Suc k + j) \<noteq> None" by blast
          with Suc show ?thesis by simp
        qed
      qed
      have idx: "k + (Suc m - 1) = Suc k + (m - 1)" using m(1) by simp
      have bound: "Suc m \<le> nat \<lceil>q\<rceil>" using m(2) pos unfolding cl by simp
      have last: "case r of
             Inr u \<Rightarrow> outcome (k + (Suc m - 1)) = None
           | Inl e \<Rightarrow> Suc m = nat \<lceil>q\<rceil> \<and> outcome (k + (Suc m - 1)) \<noteq> None"
        using m(5) pos unfolding idx cl by (auto split: sum.splits)
      show ?thesis
        apply (rule exI [of _ "Suc m"])
        apply (rule exI [of _ r])
        unfolding step rep
        using bound all last by simp
    qed
  qed
qed

lemma connect_loop_retries_forever:
  assumes "\<forall>i. outcome i \<noteq> None" and "greater_than_zero a" and "decrement a = a"
  shows "connect_loop fuel outcome d a k = None"
proof (induction fuel arbitrary: k)
  case 0
  show ?case by simp
next
  case (Suc fuel)
  from assms(1) have "outcome k \<noteq> None" by blast
  then obtain err where "outcome k = Some err" by (cases "outcome k") auto
  moreover from assms(2,3) have "\<not> at_most_zero (decrement a)" by (cases a) auto
  ultimately show ?case using assms(2,3) Suc.IH by simp
qed

text \<open>
  C9, as the code has it. For a budget \<open>n\<close> with \<open>1 \<le> n \<le> 2^53\<close>, given as the argument
  or as the configured retry count, \<open>connect\<close> returns within \<open>\<lceil>n\<rceil>\<close> tests of its loop
  condition, whatever the backend does: it calls \<open>mongoose.connect\<close> at most \<open>\<lceil>n\<rceil>\<close>
  times, which is \<open>n\<close> for an integer budget; what it does is \<open>m \<le> \<lceil>n\<rceil>\<close> attempts
  with one wait of the configured delay (3000 ms when none is configured) between
  consecutive attempts and none after the last; it ends in the fatal error exactly when
  the first \<open>\<lceil>n\<rceil>\<close> attempts all fail, and then it has made exactly \<open>\<lceil>n\<rceil>\<close> attempts.
  Without an argument and without a configured retry count the budget is 3.
\<close>

theorem connect_bounded_retries:
  assumes "1 \<le> q" and "q \<le> 9007199254740992" and "nat \<lceil>q\<rceil> \<le> fuel"
  shows "\<exists>r evs. connect fuel outcome DB_RETRY_ATTEMPTS d (Some (Num q)) = Some (r, evs)
       \<and> count_list evs TryConnect \<le> nat \<lceil>q\<rceil>
       \<and> (\<exists>m. 1 \<le> m \<and> m \<le> nat \<lceil>q\<rceil>
             \<and> evs = concat (replicate (m - 1) [TryConnect, Wait (number_or d (Num 3000))])
                     @ [TryConnect])
       \<and> ((\<exists>e. r = Inl e) \<longleftrightarrow> (\<forall>i < nat \<lceil>q\<rceil>. outcome i \<noteq> None))
       \<and> ((\<exists>e. r = Inl e) \<longrightarrow> count_list evs TryConnect = nat \<lceil>q\<rceil>)
       \<and> connect fuel outcome (Some (Num q)) d None = Some (r, evs)
       \<and> connect fuel outcome None d None = connect fuel outcome DB_RETRY_ATTEMPTS d (Some (Num 3))"
proof -
  from assms(1) have "0 < q" by simp
  from connect_loop_shape [OF this assms(2,3), of outcome d 0]
  obtain m r where m: "1 \<le> m" "m \<le> nat \<lceil>q\<rceil>"
    "connect_loop fuel outcome d (Num q) 0
       = Some (r, concat (replicate (m - 1) [TryConnect, Wait (number_or d (Num 3000))])
                    @ [TryConnect])"
    "\<forall>i < m - 1. outcome (0 + i) \<noteq> None"
    "case r of
       Inr u \<Rightarrow> outcome (0 + (m - 1)) = None
     | Inl e \<Rightarrow> m = nat \<lceil>q\<rceil> \<and> outcome (0 + (m - 1)) \<noteq> None"
    by blast
  let ?evs = "concat (replicate (m - 1) [TryConnect, Wait (number_or d (Num 3000))]) @ [TryConnect]"
  have run: "connect fuel outcome DB_RETRY_ATTEMPTS d (Some (Num q)) = Some (r, ?evs)"
    using m(3) by (simp add: connect_def)
  have cnt: "count_list ?evs TryConnect = m"
  proof -
    have "count_list ?evs TryConnect = Suc (m - 1)" by (rule count_attempts)
    also have "Suc (m - 1) = m" using m(1) by simp
    finally show ?thesis .
  qed
  have bound: "count_list ?evs TryConnect \<le> nat \<lceil>q\<rceil>"
    using cnt m(2) by simp
  have shape: "\<exists>m'. 1 \<le> m' \<and> m' \<le> nat \<lceil>q\<rceil>
       \<and> ?evs = concat (replicate (m' - 1) [TryConnect, Wait (number_or d (Num 3000))])
                 @ [TryConnect]"
    using m(1,2) by blast
  have fatal_iff: "(\<exists>e. r = Inl e) \<longleftrightarrow> (\<forall>i < nat \<lceil>q\<rceil>. outcome i \<noteq> None)"
  proof
    assume "\<exists>e. r = Inl e"
    then obtain e where e: "r = Inl e" ..
    with m(5) have both: "m = nat \<lceil>q\<rceil> \<and> outcome (m - 1) \<noteq> None" by auto
    then have mn: "m = nat \<lceil>q\<rceil>" ..
    from both have last: "outcome (m - 1) \<noteq> None" ..
    show "\<forall>i < nat \<lceil>q\<rceil>. outcome i \<noteq> None"
    proof (intro allI impI)
      fix i assume "i < nat \<lceil>q\<rceil>"
      with mn have "i < m - 1 \<or> i = m - 1" by auto
      with m(4) last show "outcome i \<noteq> None" by auto
    qed
  next
    assume all: "\<forall>i < nat \<lceil>q\<rceil>. outcome i \<noteq> None"
    show "\<exists>e. r = Inl e"
    proof (cases r)
      case (Inl e)
      then show ?thesis by blast
    next
      case (Inr u)
      with m(5) have "outcome (m - 1) = None" by simp
      moreover from m(1,2) have "m - 1 < nat \<lceil>q\<rceil>" by simp
      ultimately show ?thesis using all by blast
    qed
  qed
  have fatal_cnt: "(\<exists>e. r = Inl e) \<longrightarrow> count_list ?evs TryConnect = nat \<lceil>q\<rceil>"
  proof
    assume "\<exists>e. r = Inl e"
    then obtain e where "r = Inl e" ..
    with m(5) have "m = nat \<lceil>q\<rceil>" by simp
    with cnt show "count_list ?evs TryConnect = nat \<lceil>q\<rceil>" by simp
  qed
  have cfg: "connect fuel outcome (Some (Num q)) d None = Some (r, ?evs)"
    using m(3) \<open>0 < q\<close> by (simp add: connect_def number_or_def)
  have dflt: "connect fuel outcome None d None
                = connect fuel outcome DB_RETRY_ATTEMPTS d (Some (Num 3))"
    by (simp add: connect_def number_or_def)
  from run bound shape fatal_iff fatal_cnt cfg dflt show ?thesis by blast
qed

theorem connect_bounded_retries_witness:
  "connect 3 (\<lambda>i. Some (Error ''ECONNREFUSED'')) None None (Some (Num 3))
     = Some (Inl (Error ''MongoDB adapter failed to connect after maximum retries. Error: ECONNREFUSED''),
             [TryConnect, Wait (Num 3000), TryConnect, Wait (Num 3000), TryConnect])
   \<and> connect 8 (\<lambda>i. if i < 1 then Some (Error ''ECONNREFUSED'') else None) None (Some (Num 500))
       (Some (Num 3))
     = Some (Inr (), [TryConnect, Wait (Num 500), TryConnect])
   \<and> connect 3 (\<lambda>i. Some (Error ''ECONNREFUSED'')) None None None
     = Some (Inl (Error ''MongoDB adapter failed to connect after maximum retries. Error: ECONNREFUSED''),
             [TryConnect, Wait (Num 3000), TryConnect, Wait (Num 3000), TryConnect])"
proof -
  let ?f = "\<lambda>i::nat. Some (Error ''ECONNREFUSED'')"
  have h1: "(1::rat) \<le> 3" and h2: "(3::rat) \<le> 9007199254740992" and h3: "nat \<lceil>3::rat\<rceil> \<le> 3"
    by simp_all
  from connect_bounded_retries [OF h1 h2 h3, of ?f None None]
  obtain r evs where t: "connect 3 ?f None None (Some (Num 3)) = Some (r, evs)"
    "count_list evs TryConnect \<le> nat \<lceil>3::rat\<rceil>"
    by blast
  have a: "connect 3 ?f None None (Some (Num 3))
     = Some (Inl (Error ''MongoDB adapter failed to connect after maximum retries. Error: ECONNREFUSED''),
             [TryConnect, Wait (Num 3000), TryConnect, Wait (Num 3000), TryConnect])"
    using t by (simp add: connect_def number_or_def numeral_3_eq_3)
  have b: "connect 8 (\<lambda>i. if i < 1 then Some (Error ''ECONNREFUSED'') else None) None (Some (Num 500))
       (Some (Num 3))
     = Some (Inr (), [TryConnect, Wait (Num 500), TryConnect])"
    by (simp add: connect_def number_or_def eval_nat_numeral)
  have c: "connect 3 ?f None None None
     = Some (Inl (Error ''MongoDB adapter failed to connect after maximum retries. Error: ECONNREFUSED''),
             [TryConnect, Wait (Num 3000), TryConnect, Wait (Num 3000), TryConnect])"
    using a by (simp add: connect_def number_or_def)
  from a b c show ?thesis by blast
qed

text \<open>
  The bound by the budget itself does not hold for every budget of at least one: with
  the budget 1.5 and a backend that keeps failing, \<open>connect\<close> makes two attempts; and
  the decrement leaves the budget 9007199254740996 and an infinite budget as they are,
  so that with such a budget \<open>connect\<close> never returns while the backend keeps failing.
\<close>

theorem connect_bounded_retries_counterexample:
  "connect 2 (\<lambda>i. Some (Error ''ECONNREFUSED'')) None None (Some (Num (3 / 2)))
     = Some (Inl (Error ''MongoDB adapter failed to connect after maximum retries. Error: ECONNREFUSED''),
             [TryConnect, Wait (Num 3000), TryConnect])
   \<and> decrement (Num 9007199254740996) = Num 9007199254740996
   \<and> decrement Infinity = Infinity"
  by (simp add: connect_def number_or_def eval_nat_numeral)

lemma connect_retries_forever:
  "connect fuel (\<lambda>i. Some err) DB_RETRY_ATTEMPTS d (Some (Num 9007199254740996)) = None"
  "connect fuel (\<lambda>i. Some err) DB_RETRY_ATTEMPTS d (Some Infinity) = None"
  "connect fuel (\<lambda>i. Some err) (Some Infinity) d None = None"
  by (simp_all add: connect_def number_or_def connect_loop_retries_forever)

section \<open>Sessions\<close>

lemma find_Some_mem: "find P xs = Some d \<Longrightarrow> d \<in> set xs"
  by (induction xs) (auto split: if_splits)

lemma mongo_validateSession_expired:
  assumes "find (\<lambda>s. session_id s = sid) (SessionModel db) = Some session"
    and "s_expires session \<le> now"
  shows "MongoDBAuthAdapter_validateSession db now sid
           = (None, db\<lparr>SessionModel := remove1 session (SessionModel db)\<rparr>)"
    and "now \<le> t \<Longrightarrow>
           session \<notin> set (MongoDBAuthAdapter_getActiveSessions
                            (snd (MongoDBAuthAdapter_validateSession db now sid)) t uid)"
  using assms
  by (auto simp: MongoDBAuthAdapter_validateSession_def deleteOne_first_match
        MongoDBAuthAdapter_getActiveSessions_def)

lemma drizzle_validateSession_reads_only:
  "snd (DrizzleAuthAdapter_validateSession db now sid) = db"
  by (simp add: DrizzleAuthAdapter_validateSession_def split: option.splits)

lemma drizzle_expired_session_stays:
  assumes "session \<in> set (sessions db)" and "s_expires session \<le> now" and "now \<le> t"
  shows "session \<in> set (sessions (snd (DrizzleAuthAdapter_validateSession db now sid)))"
    and "session \<notin> set (DrizzleAuthAdapter_getActiveSessions
                            (snd (DrizzleAuthAdapter_validateSession db now sid)) t uid)"
  using assms
  by (simp_all add: drizzle_validateSession_reads_only DrizzleAuthAdapter_getActiveSessions_def)

lemma drizzle_validateSession_expired:
  "\<forall>s \<in> set (sessions db). session_id s = sid \<longrightarrow> s_expires s \<le> now \<Longrightarrow>
     DrizzleAuthAdapter_validateSession db now sid = (None, db)"
proof -
  assume a: "\<forall>s \<in> set (sessions db). session_id s = sid \<longrightarrow> s_expires s \<le> now"
  have "find (\<lambda>s. session_id s = sid \<and> s_expires s > now) (sessions db) = None"
  proof (cases "find (\<lambda>s. session_id s = sid \<and> s_expires s > now) (sessions db)")
    case None
    then show ?thesis .
  next
    case (Some x)
    from find_Some_mem [OF Some] find_Some_holds [OF Some] a show ?thesis by force
  qed
  then show ?thesis by (simp add: DrizzleAuthAdapter_validateSession_def)
qed

lemma auth_validateSession_ignores_expiry:
  "find (\<lambda>s. session_id s = sid) (Auth_Session m) = Some session \<Longrightarrow>
   find (\<lambda>u. u_id u = Some (s_user_id session)) (Auth_User m) = Some user \<Longrightarrow>
     Auth_validateSession Inr m sid = Inr (Some (user\<lparr>u_id := None\<rparr>))"
  by (simp add: Auth_validateSession_def)

text \<open>
  C1. The three implementations of \<open>validateSession\<close> on the same expired session
  (\<open>expires = 5000\<close>, validated at time 10000, its user present). The Drizzle adapter answers
  \<open>null\<close> and leaves the row in the table. The \<open>Auth\<close> class never reads \<open>expires\<close>: it
  returns the user and deletes nothing. The MongoDB adapter answers \<open>null\<close> and deletes
  the document.
\<close>

theorem expired_session_not_removed:
  "DrizzleAuthAdapter_validateSession
     \<lparr>users = [\<lparr>u_id = Some ''64b7f0c2a1d3e4f5a6b7c8d9'', email = ''a@x.com'', password = None, role = ''user''\<rparr>],
      sessions = [\<lparr>session_id = ''64b7f0c2a1d3e4f5a6b7c8e1'', s_user_id = ''64b7f0c2a1d3e4f5a6b7c8d9'', s_expires = 5000\<rparr>],
      tokens = []\<rparr>
     10000 ''64b7f0c2a1d3e4f5a6b7c8e1''
   = (None,
      \<lparr>users = [\<lparr>u_id = Some ''64b7f0c2a1d3e4f5a6b7c8d9'', email = ''a@x.com'', password = None, role = ''user''\<rparr>],
       sessions = [\<lparr>session_id = ''64b7f0c2a1d3e4f5a6b7c8e1'', s_user_id = ''64b7f0c2a1d3e4f5a6b7c8d9'', s_expires = 5000\<rparr>],
       tokens = []\<rparr>)
   \<and> Auth_validateSession Inr
       \<lparr>Auth_User = [\<lparr>u_id = Some ''64b7f0c2a1d3e4f5a6b7c8d9'', email = ''a@x.com'', password = None, role = ''user''\<rparr>],
        Auth_Session = [\<lparr>session_id = ''64b7f0c2a1d3e4f5a6b7c8e1'', s_user_id = ''64b7f0c2a1d3e4f5a6b7c8d9'', s_expires = 5000\<rparr>]\<rparr>
       ''64b7f0c2a1d3e4f5a6b7c8e1''
   = Inr (Some \<lparr>u_id = None, email = ''a@x.com'', password = None, role = ''user''\<rparr>)
   \<and> MongoDBAuthAdapter_validateSession
       \<lparr>UserModel = [\<lparr>u_id = Some ''64b7f0c2a1d3e4f5a6b7c8d9'', email = ''a@x.com'', password = None, role = ''user''\<rparr>],
        SessionModel = [\<lparr>session_id = ''64b7f0c2a1d3e4f5a6b7c8e1'', s_user_id = ''64b7f0c2a1d3e4f5a6b7c8d9'', s_expires = 5000\<rparr>],
        TokenModel = [], RoleModel = [], PermissionModel = []\<rparr>
       10000 ''64b7f0c2a1d3e4f5a6b7c8e1''
   = (None,
      \<lparr>UserModel = [\<lparr>u_id = Some ''64b7f0c2a1d3e4f5a6b7c8d9'', email = ''a@x.com'', password = None, role = ''user''\<rparr>],
       SessionModel = [], TokenModel = [], RoleModel = [], PermissionModel = []\<rparr>)"
  by (simp add: DrizzleAuthAdapter_validateSession_def Auth_validateSession_def
        MongoDBAuthAdapter_validateSession_def)

text \<open>
  C10. \<open>Auth.validateSession\<close> on a session identifier with no session record raises:
  the conversion to an object identifier throws, or the lookup yields \<open>null\<close> and reading
  its \<open>user_id\<close> throws a \<open>TypeError\<close>. It returns \<open>null\<close> exactly when the session
  record exists and no user record has the session's \<open>user_id\<close>.
\<close>

theorem absent_session_raises:
  "((\<forall>oid. toObjectId sid = Inr oid \<longrightarrow>
        find (\<lambda>s. session_id s = oid) (Auth_Session m) = None) \<longrightarrow>
      (\<exists>e. Auth_validateSession toObjectId m sid = Inl e))
   \<and> (toObjectId sid = Inr oid \<and> find (\<lambda>s. session_id s = oid) (Auth_Session m) = None \<longrightarrow>
      Auth_validateSession toObjectId m sid
        = Inl (TypeError ''Cannot read properties of null (reading user_id)''))
   \<and> (Auth_validateSession toObjectId m sid = Inr None \<longleftrightarrow>
        (\<exists>oid session. toObjectId sid = Inr oid
           \<and> find (\<lambda>s. session_id s = oid) (Auth_Session m) = Some session
           \<and> find (\<lambda>u. u_id u = Some (s_user_id session)) (Auth_User m) = None))"
  by (auto simp: Auth_validateSession_def split: sum.splits option.splits)

theorem absent_session_raises_witness:
  "Auth_validateSession Inr
     \<lparr>Auth_User = [\<lparr>u_id = Some ''64b7f0c2a1d3e4f5a6b7c8d9'', email = ''a@x.com'', password = None, role = ''user''\<rparr>],
      Auth_Session = [\<lparr>session_id = ''64b7f0c2a1d3e4f5a6b7c8e1'', s_user_id = ''64b7f0c2a1d3e4f5a6b7c8d9'', s_expires = 100\<rparr>]\<rparr>
     ''64b7f0c2a1d3e4f5a6b7c8e9''
   = Inl (TypeError ''Cannot read properties of null (reading user_id)'')
   \<and> Auth_validateSession Inr
     \<lparr>Auth_User = [\<lparr>u_id = Some ''64b7f0c2a1d3e4f5a6b7c8d9'', email = ''a@x.com'', password = None, role = ''user''\<rparr>],
      Auth_Session = [\<lparr>session_id = ''64b7f0c2a1d3e4f5a6b7c8e2'', s_user_id = ''64b7f0c2a1d3e4f5a6b7c8d7'', s_expires = 100\<rparr>]\<rparr>
     ''64b7f0c2a1d3e4f5a6b7c8e2''
   = Inr None"
proof -
  let ?u = "\<lparr>u_id = Some ''64b7f0c2a1d3e4f5a6b7c8d9'', email = ''a@x.com'', password = None, role = ''user''\<rparr>"
  let ?m1 = "\<lparr>Auth_User = [?u],
      Auth_Session = [\<lparr>session_id = ''64b7f0c2a1d3e4f5a6b7c8e1'', s_user_id = ''64b7f0c2a1d3e4f5a6b7c8d9'', s_expires = 100\<rparr>]\<rparr>"
  let ?m2 = "\<lparr>Auth_User = [?u],
      Auth_Session = [\<lparr>session_id = ''64b7f0c2a1d3e4f5a6b7c8e2'', s_user_id = ''64b7f0c2a1d3e4f5a6b7c8d7'', s_expires = 100\<rparr>]\<rparr>"
  have a: "Auth_validateSession Inr ?m1 ''64b7f0c2a1d3e4f5a6b7c8e9''
             = Inl (TypeError ''Cannot read properties of null (reading user_id)'')"
    using absent_session_raises [of Inr "''64b7f0c2a1d3e4f5a6b7c8e9''" ?m1 "''64b7f0c2a1d3e4f5a6b7c8e9''"] by simp
  have b: "Auth_validateSession Inr ?m2 ''64b7f0c2a1d3e4f5a6b7c8e2'' = Inr None"
    using absent_session_raises [of Inr "''64b7f0c2a1d3e4f5a6b7c8e2''" ?m2 "''64b7f0c2a1d3e4f5a6b7c8e2''"] by simp
  from a b show ?thesis by (rule conjI)
qed

section \<open>Passwords\<close>

lemma changePassword_plaintext:
  "find (\<lambda>u. u_id u = Some uid) userModel = Some user \<Longrightarrow>
     UserAdapter_getUserById (UserAdapter_changePassword userModel uid newPassword) uid
       = Some (user\<lparr>password := Some newPassword\<rparr>)"
  unfolding UserAdapter_getUserById_def UserAdapter_changePassword_def
  by (induction userModel) (auto split: if_splits)

text \<open>
  C8. \<open>UserAdapter.changePassword\<close> writes the password it is given: after
  \<open>changePassword(id, hunter2)\<close> the stored record holds \<open>hunter2\<close> itself, where
  \<open>Auth.updateUserAttributes\<close> stores the hash of the same input.
\<close>

theorem changePassword_stores_plaintext:
  "UserAdapter_getUserById
     (UserAdapter_changePassword
        [\<lparr>u_id = Some ''64b7f0c2a1d3e4f5a6b7c8d9'', email = ''a@x.com'', password = Some ''$argon2id$v=19$m=4096,t=2,p=2$c2FsdA$aGFzaA'',
          role = ''user''\<rparr>]
        ''64b7f0c2a1d3e4f5a6b7c8d9'' ''hunter2'')
     ''64b7f0c2a1d3e4f5a6b7c8d9''
   = Some \<lparr>u_id = Some ''64b7f0c2a1d3e4f5a6b7c8d9'', email = ''a@x.com'', password = Some ''hunter2'', role = ''user''\<rparr>
   \<and> (\<forall>hash. Auth_User (Auth_updateUserAttributes hash
        \<lparr>Auth_User = [\<lparr>u_id = Some ''64b7f0c2a1d3e4f5a6b7c8d9'', email = ''a@x.com'', password = None, role = ''user''\<rparr>],
         Auth_Session = []\<rparr>
        \<lparr>u_id = Some ''64b7f0c2a1d3e4f5a6b7c8d9'', email = ''a@x.com'', password = None, role = ''user''\<rparr>
        \<lparr>a_email = None, a_password = Some ''hunter2'', a_role = None\<rparr>)
      = [\<lparr>u_id = Some ''64b7f0c2a1d3e4f5a6b7c8d9'', email = ''a@x.com'', password = Some (hash ''hunter2''), role = ''user''\<rparr>])"
  by (simp add: UserAdapter_getUserById_def UserAdapter_changePassword_def
        Auth_updateUserAttributes_def set_attributes_def)

end
